theory Spec2Isabelle
  imports Main "HOL-Library.Word"
begin

section \<open>HushLane central API: license keys, licenses and instance registry\<close>

text \<open>
  A shallow embedding of \<^verbatim>\<open>generate_license.py\<close> and \<^verbatim>\<open>main.py\<close>.
  The SQLite database is a record of three tables, each a list of rows in insertion
  order; every handler takes the store and returns its response with the store it
  leaves behind. What the handlers read from outside (the clock, the random source,
  a failing database call, the library's date parsing and printing) is a parameter.
\<close>

subsection \<open>Key generator (\<^verbatim>\<open>generate_license.py\<close>)\<close>

text \<open>
  \<^verbatim>\<open>secrets.token_hex(n)\<close> draws \<open>n\<close> bytes from the operating system and prints
  each as two lowercase hexadecimal digits. The random source is the stream of bytes
  it will deliver; a call made when \<open>pos\<close> bytes have been consumed reads the next
  \<open>n\<close> of them.
\<close>

type_synonym entropy = "nat \<Rightarrow> 8 word"

definition hexdigits :: string where
  "hexdigits = ''0123456789abcdef''"

definition hexlify :: "8 word list \<Rightarrow> string" where
  "hexlify bs = concat (map (\<lambda>b. [hexdigits ! (unat b div 16), hexdigits ! (unat b mod 16)]) bs)"

definition token_bytes :: "entropy \<Rightarrow> nat \<Rightarrow> nat \<Rightarrow> 8 word list" where
  "token_bytes rnd pos n = map rnd [pos..<pos + n]"

definition token_hex :: "entropy \<Rightarrow> nat \<Rightarrow> nat \<Rightarrow> string" where
  "token_hex rnd pos n = hexlify (token_bytes rnd pos n)"

text \<open>\<^verbatim>\<open>str.upper\<close> on the ASCII letters; every other character is kept.\<close>

definition upper_char :: "char \<Rightarrow> char" where
  "upper_char c =
     (case map_of (zip ''abcdefghijklmnopqrstuvwxyz'' ''ABCDEFGHIJKLMNOPQRSTUVWXYZ'') c of
        None \<Rightarrow> c | Some u \<Rightarrow> u)"

definition upper :: "string \<Rightarrow> string" where
  "upper s = map upper_char s"

text \<open>\<^verbatim>\<open>sep.join(parts)\<close>.\<close>

fun join :: "string \<Rightarrow> string list \<Rightarrow> string" where
  "join sep [] = []"
| "join sep [p] = p"
| "join sep (p # q # ps) = p @ sep @ join sep (q # ps)"

text \<open>
  \<^verbatim>\<open>parts = [secrets.token_hex(4).upper() for _ in range(4)]\<close>,
  \<^verbatim>\<open>return f"HL-{'-'.join(parts)}"\<close>: the \<open>i\<close>-th part is drawn after \<open>4 * i\<close> bytes.
\<close>

definition generate_license_key :: "entropy \<Rightarrow> string" where
  "generate_license_key rnd =
     ''HL-'' @ join ''-'' (map (\<lambda>i. upper (token_hex rnd (4 * i) 4)) [0..<4])"

text \<open>
  The key format the data model documents, \<^verbatim>\<open>HL-XXXX-XXXX-XXXX-XXXX\<close>: the prefix
  \<^verbatim>\<open>HL\<close>, then four groups, each a hyphen and four uppercase hexadecimal digits.
\<close>

definition is_upper_hex :: "char \<Rightarrow> bool" where
  "is_upper_hex c = (c \<in> set ''0123456789ABCDEF'')"

fun key_groups :: "nat \<Rightarrow> string \<Rightarrow> bool" where
  "key_groups 0 s = (s = [])"
| "key_groups (Suc n) s =
     (5 \<le> length s \<and> take 1 s = ''-'' \<and> list_all is_upper_hex (take 4 (drop 1 s))
      \<and> key_groups n (drop 5 s))"

definition key_format :: "string \<Rightarrow> bool" where
  "key_format s = (take 2 s = ''HL'' \<and> key_groups 4 (drop 2 s))"

subsection \<open>The store\<close>

text \<open>
  The three tables of \<^verbatim>\<open>init_db\<close>. A column declared without \<^verbatim>\<open>NOT NULL\<close> holds
  an optional value. \<open>history_seq\<close> is the counter behind the \<^verbatim>\<open>AUTOINCREMENT\<close>
  key of \<^verbatim>\<open>version_history\<close>. Strings are lists of 8-bit characters; a character
  of code 128 or more stands for a non-ASCII character.
\<close>

record instance_row =
  customer_id :: string
  version :: string
  url :: string
  health_status :: "string option"
  last_heartbeat :: "string option"
  first_seen :: "string option"
  total_users :: "int option"
  total_messages :: "int option"

record history_row =
  vh_id :: nat
  vh_customer_id :: "string option"
  old_version :: "string option"
  new_version :: "string option"
  updated_at :: "string option"

record license_row =
  license_key :: string
  lic_customer_id :: string
  customer_name :: string
  plan :: "string option"
  status :: "string option"
  created_at :: "string option"
  expires_at :: "string option"
  last_validated :: "string option"

record store =
  customer_instances :: "instance_row list"
  version_history :: "history_row list"
  history_seq :: nat
  licenses :: "license_row list"

text \<open>
  A database call may raise: \<open>flt c\<close> is the message of the exception that call \<open>c\<close>
  raises, and \<open>None\<close> when the call goes through. A handler that leaves its
  \<^verbatim>\<open>with\<close> block, or returns, before \<^verbatim>\<open>commit\<close> leaves the store as it found it.
\<close>

datatype db_call = Connect | Select | Update | Insert | Commit

type_synonym db_faults = "db_call \<Rightarrow> string option"

datatype py_exception =
    SqliteError string
  | OverflowError
  | TypeError string
  | HTTPException nat string "(string \<times> string) list"

text \<open>The \<^verbatim>\<open>sqlite3\<close> module binds a Python integer only if it fits in 64 bits.\<close>

definition sqlite_int :: "int \<Rightarrow> bool" where
  "sqlite_int i = (- (2 ^ 63) \<le> i \<and> i < 2 ^ 63)"

subsection \<open>Dates and times\<close>

text \<open>
  A naive \<^verbatim>\<open>datetime\<close> is its count of microseconds since 0001-01-01T00:00:00; the
  last one is 9999-12-31T23:59:59.999999. Parsing and printing are the library's:
  \<open>fromisoformat\<close> returns the message of the \<^verbatim>\<open>ValueError\<close> on a malformed string,
  and a parsed value may carry a time zone.
\<close>

datatype pydatetime = Naive int | Aware int

record pylib =
  fromisoformat :: "string \<Rightarrow> string + pydatetime"
  isoformat :: "int \<Rightarrow> string"
  strftime_ymd :: "int \<Rightarrow> string"

definition datetime_max :: int where
  "datetime_max = 3652059 * 86400000000 - 1"

definition timedelta_days :: "int \<Rightarrow> py_exception + int" where
  "timedelta_days d = (if 999999999 < \<bar>d\<bar> then Inl OverflowError else Inr (d * 86400000000))"

definition datetime_add :: "int \<Rightarrow> int \<Rightarrow> py_exception + int" where
  "datetime_add t delta =
     (if t + delta < 0 \<or> datetime_max < t + delta then Inl OverflowError else Inr (t + delta))"

subsection \<open>Creating a license (\<^verbatim>\<open>generate_license.py\<close>)\<close>

datatype create_result =
    Created string
  | DuplicateCustomer string string
  | Failed py_exception

text \<open>What \<^verbatim>\<open>create_license\<close> returns: the key, or \<^verbatim>\<open>None\<close> after printing an error.\<close>

fun return_value :: "create_result \<Rightarrow> string option" where
  "return_value (Created k) = Some k"
| "return_value (DuplicateCustomer c k) = None"
| "return_value (Failed e) = None"

text \<open>
  \<^verbatim>\<open>expires_at = None\<close>; \<^verbatim>\<open>if months: expires_at = (datetime.now() +
  timedelta(days=months*30)).isoformat()\<close>. \<^verbatim>\<open>None\<close> and \<open>0\<close> are false.
\<close>

definition expiration :: "pylib \<Rightarrow> int \<Rightarrow> int option \<Rightarrow> py_exception + string option" where
  "expiration lib now months =
     (case months of
        None \<Rightarrow> Inr None
      | Some m \<Rightarrow>
          if m = 0 then Inr None
          else (case timedelta_days (m * 30) of
                  Inl e \<Rightarrow> Inl e
                | Inr delta \<Rightarrow>
                    (case datetime_add now delta of
                       Inl e \<Rightarrow> Inl e
                     | Inr t \<Rightarrow> Inr (Some (isoformat lib t)))))"

text \<open>
  The \<^verbatim>\<open>INSERT INTO licenses\<close>: \<^verbatim>\<open>license_key\<close> is the primary key and
  \<^verbatim>\<open>customer_id\<close> is unique; \<^verbatim>\<open>created_at\<close> defaults to the database's clock and
  \<^verbatim>\<open>last_validated\<close> to null.
\<close>

definition insert_license ::
  "db_faults \<Rightarrow> string \<Rightarrow> string \<Rightarrow> string \<Rightarrow> string \<Rightarrow> string \<Rightarrow> string option
    \<Rightarrow> store \<Rightarrow> py_exception + store" where
  "insert_license flt cur_ts key cid cname pl exp db =
     (case flt Insert of
        Some e \<Rightarrow> Inl (SqliteError e)
      | None \<Rightarrow>
          if key \<in> set (map license_key (licenses db)) then
            Inl (SqliteError ''UNIQUE constraint failed: licenses.license_key'')
          else if cid \<in> set (map lic_customer_id (licenses db)) then
            Inl (SqliteError ''UNIQUE constraint failed: licenses.customer_id'')
          else
            Inr (db\<lparr>licenses := licenses db @
                  [\<lparr>license_key = key, lic_customer_id = cid, customer_name = cname,
                    plan = Some pl, status = Some ''active'', created_at = Some cur_ts,
                    expires_at = exp, last_validated = None\<rparr>]\<rparr>))"

text \<open>
  \<^verbatim>\<open>def create_license(customer_id, customer_name, plan="standard", months=12)\<close>.
  An argument left out is \<open>None\<close> and takes the default of the signature; \<open>Some None\<close>
  is \<^verbatim>\<open>months=None\<close> passed by the caller. \<open>now\<close> is \<^verbatim>\<open>datetime.now()\<close> and
  \<open>cur_ts\<close> the database's \<^verbatim>\<open>CURRENT_TIMESTAMP\<close>.
\<close>

definition create_license ::
  "pylib \<Rightarrow> db_faults \<Rightarrow> entropy \<Rightarrow> int \<Rightarrow> string \<Rightarrow> string \<Rightarrow> string \<Rightarrow> string option
    \<Rightarrow> int option option \<Rightarrow> store \<Rightarrow> create_result \<times> store" where
  "create_license lib flt rnd now cur_ts cid cname plan_arg months_arg db =
     (let pl = (case plan_arg of None \<Rightarrow> ''standard'' | Some p \<Rightarrow> p);
          months = (case months_arg of None \<Rightarrow> Some 12 | Some m \<Rightarrow> m)
      in case flt Connect of
           Some e \<Rightarrow> (Failed (SqliteError e), db)
         | None \<Rightarrow>
        (case flt Select of
           Some e \<Rightarrow> (Failed (SqliteError e), db)
         | None \<Rightarrow>
        (case find (\<lambda>r. lic_customer_id r = cid) (licenses db) of
           Some existing \<Rightarrow> (DuplicateCustomer cid (license_key existing), db)
         | None \<Rightarrow>
             (let key = generate_license_key rnd
              in case expiration lib now months of
                   Inl e \<Rightarrow> (Failed e, db)
                 | Inr exp \<Rightarrow>
                (case insert_license flt cur_ts key cid cname pl exp db of
                   Inl e \<Rightarrow> (Failed e, db)
                 | Inr db' \<Rightarrow>
                (case flt Commit of
                   Some e \<Rightarrow> (Failed (SqliteError e), db)
                 | None \<Rightarrow> (Created key, db')))))))"

text \<open>
  The \<^verbatim>\<open>create\<close> command of \<^verbatim>\<open>main\<close>: \<^verbatim>\<open>--plan\<close> defaults to \<^verbatim>\<open>standard\<close> and must be
  one of three choices, \<^verbatim>\<open>--months\<close> defaults to 12, and
  \<^verbatim>\<open>months = None if args.months == 0 else args.months\<close>. The result is \<open>None\<close> when
  the argument parser refuses the command line.
\<close>

definition main_create ::
  "pylib \<Rightarrow> db_faults \<Rightarrow> entropy \<Rightarrow> int \<Rightarrow> string \<Rightarrow> string \<Rightarrow> string \<Rightarrow> string option
    \<Rightarrow> int option \<Rightarrow> store \<Rightarrow> create_result option \<times> store" where
  "main_create lib flt rnd now cur_ts cid cname plan_flag months_flag db =
     (let args_plan = (case plan_flag of None \<Rightarrow> ''standard'' | Some p \<Rightarrow> p);
          args_months = (case months_flag of None \<Rightarrow> 12 | Some m \<Rightarrow> m)
      in if args_plan \<notin> set [''standard'', ''pro'', ''enterprise''] then (None, db)
         else (let months = (if args_months = 0 then None else Some args_months);
                   (r, db') = create_license lib flt rnd now cur_ts cid cname
                                (Some args_plan) (Some months) db
               in (Some r, db')))"

subsection \<open>Responses of the HTTP handlers (\<^verbatim>\<open>main.py\<close>)\<close>

datatype json = JNull | JBool bool | JStr string

record response =
  status_code :: nat
  content :: "(string \<times> json) list"

definition json_of :: "string option \<Rightarrow> json" where
  "json_of v = (case v of None \<Rightarrow> JNull | Some s \<Rightarrow> JStr s)"

text \<open>How an f-string prints a nullable text column.\<close>

definition py_str :: "string option \<Rightarrow> string" where
  "py_str v = (case v of None \<Rightarrow> ''None'' | Some s \<Rightarrow> s)"

subsection \<open>Instance registry\<close>

record InstanceRegistration =
  reg_customer_id :: string
  reg_version :: string
  reg_url :: string
  reg_health :: string
  reg_timestamp :: string
  reg_total_users :: int
  reg_total_messages :: int

definition bind_overflow :: string where
  "bind_overflow = ''Python int too large to convert to SQLite INTEGER''"

text \<open>\<^verbatim>\<open>UPDATE customer_instances SET ... WHERE customer_id = ?\<close>.\<close>

definition update_instance :: "db_faults \<Rightarrow> InstanceRegistration \<Rightarrow> store \<Rightarrow> string + store" where
  "update_instance flt reg db =
     (if \<not> (sqlite_int (reg_total_users reg) \<and> sqlite_int (reg_total_messages reg)) then
        Inl bind_overflow
      else case flt Update of
        Some e \<Rightarrow> Inl e
      | None \<Rightarrow>
          Inr (db\<lparr>customer_instances :=
                 map (\<lambda>r. if customer_id r = reg_customer_id reg
                           then r\<lparr>version := reg_version reg, url := reg_url reg,
                                  health_status := Some (reg_health reg),
                                  last_heartbeat := Some (reg_timestamp reg),
                                  total_users := Some (reg_total_users reg),
                                  total_messages := Some (reg_total_messages reg)\<rparr>
                           else r)
                   (customer_instances db)\<rparr>))"

text \<open>
  \<^verbatim>\<open>INSERT INTO version_history (customer_id, old_version, new_version)\<close>: the key
  is the next of the sequence and \<^verbatim>\<open>updated_at\<close> the database's clock.
\<close>

definition insert_history ::
  "db_faults \<Rightarrow> string \<Rightarrow> string \<Rightarrow> string \<Rightarrow> string \<Rightarrow> store \<Rightarrow> string + store" where
  "insert_history flt cur_ts cid old new db =
     (case flt Insert of
        Some e \<Rightarrow> Inl e
      | None \<Rightarrow>
          Inr (db\<lparr>version_history := version_history db @
                 [\<lparr>vh_id = Suc (history_seq db), vh_customer_id = Some cid,
                   old_version = Some old, new_version = Some new,
                   updated_at = Some cur_ts\<rparr>],
                 history_seq := Suc (history_seq db)\<rparr>))"

text \<open>\<^verbatim>\<open>INSERT INTO customer_instances\<close>; \<^verbatim>\<open>first_seen\<close> defaults to the database's clock.\<close>

definition insert_instance ::
  "db_faults \<Rightarrow> string \<Rightarrow> InstanceRegistration \<Rightarrow> store \<Rightarrow> string + store" where
  "insert_instance flt cur_ts reg db =
     (if \<not> (sqlite_int (reg_total_users reg) \<and> sqlite_int (reg_total_messages reg)) then
        Inl bind_overflow
      else case flt Insert of
        Some e \<Rightarrow> Inl e
      | None \<Rightarrow>
          if reg_customer_id reg \<in> set (map customer_id (customer_instances db)) then
            Inl ''UNIQUE constraint failed: customer_instances.customer_id''
          else
            Inr (db\<lparr>customer_instances := customer_instances db @
                   [\<lparr>customer_id = reg_customer_id reg, version = reg_version reg,
                     url = reg_url reg, health_status = Some (reg_health reg),
                     last_heartbeat = Some (reg_timestamp reg), first_seen = Some cur_ts,
                     total_users = Some (reg_total_users reg),
                     total_messages = Some (reg_total_messages reg)\<rparr>]\<rparr>))"

definition commit :: "db_faults \<Rightarrow> store \<Rightarrow> string + store" where
  "commit flt db = (case flt Commit of Some e \<Rightarrow> Inl e | None \<Rightarrow> Inr db)"

text \<open>The body of the \<^verbatim>\<open>try\<close> block: the store it commits, or the message of the exception.\<close>

definition register_body ::
  "db_faults \<Rightarrow> string \<Rightarrow> InstanceRegistration \<Rightarrow> store \<Rightarrow> string + store" where
  "register_body flt cur_ts reg db =
     (case flt Connect of
        Some e \<Rightarrow> Inl e
      | None \<Rightarrow>
     (case flt Select of
        Some e \<Rightarrow> Inl e
      | None \<Rightarrow>
     (case find (\<lambda>r. customer_id r = reg_customer_id reg) (customer_instances db) of
        Some row \<Rightarrow>
          (let old = version row
           in case update_instance flt reg db of
                Inl e \<Rightarrow> Inl e
              | Inr db1 \<Rightarrow>
                  if old \<noteq> reg_version reg then
                    (case insert_history flt cur_ts (reg_customer_id reg) old (reg_version reg) db1 of
                       Inl e \<Rightarrow> Inl e
                     | Inr db2 \<Rightarrow> commit flt db2)
                  else commit flt db1)
      | None \<Rightarrow>
          (case insert_instance flt cur_ts reg db of
             Inl e \<Rightarrow> Inl e
           | Inr db1 \<Rightarrow> commit flt db1))))"

definition registered :: response where
  "registered = \<lparr>status_code = 200,
     content = [(''status'', JStr ''success''), (''message'', JStr ''Instance registered'')]\<rparr>"

definition register_instance ::
  "db_faults \<Rightarrow> string \<Rightarrow> InstanceRegistration \<Rightarrow> store \<Rightarrow> response \<times> store" where
  "register_instance flt cur_ts reg db =
     (case register_body flt cur_ts reg db of
        Inl e \<Rightarrow>
          (\<lparr>status_code = 500,
            content = [(''status'', JStr ''error''), (''message'', JStr e)]\<rparr>, db)
      | Inr db' \<Rightarrow> (registered, db'))"

subsection \<open>Admin credentials\<close>

text \<open>
  \<^verbatim>\<open>secrets.compare_digest\<close> on two strings compares them when both are ASCII and
  raises \<^verbatim>\<open>TypeError\<close> otherwise.
\<close>

definition is_ascii :: "string \<Rightarrow> bool" where
  "is_ascii s = list_all (\<lambda>c. (of_char c :: nat) < 128) s"

definition compare_digest :: "string \<Rightarrow> string \<Rightarrow> py_exception + bool" where
  "compare_digest a b =
     (if is_ascii a \<and> is_ascii b then Inr (a = b)
      else Inl (TypeError ''comparing strings with non-ASCII characters is not supported''))"

record HTTPBasicCredentials =
  username :: string
  password :: string

record config =
  MASTER_ADMIN_USERNAME :: string
  MASTER_ADMIN_PASSWORD :: string

definition verify_master_admin :: "config \<Rightarrow> HTTPBasicCredentials \<Rightarrow> py_exception + string" where
  "verify_master_admin cfg credentials =
     (case compare_digest (username credentials) (MASTER_ADMIN_USERNAME cfg) of
        Inl e \<Rightarrow> Inl e
      | Inr correct_username \<Rightarrow>
     (case compare_digest (password credentials) (MASTER_ADMIN_PASSWORD cfg) of
        Inl e \<Rightarrow> Inl e
      | Inr correct_password \<Rightarrow>
          if \<not> (correct_username \<and> correct_password) then
            Inl (HTTPException 401 ''Incorrect credentials'' [(''WWW-Authenticate'', ''Basic'')])
          else Inr (username credentials)))"

subsection \<open>License validator\<close>

record LicenseValidation =
  val_license_key :: string
  val_customer_id :: string
  val_app_version :: string
  val_timestamp :: string

definition rejected :: "string \<Rightarrow> string \<Rightarrow> response" where
  "rejected code msg = \<lparr>status_code = 401,
     content = [(''valid'', JBool False), (''error'', JStr code), (''message'', JStr msg)]\<rparr>"

definition validation_error :: "string \<Rightarrow> response" where
  "validation_error msg = \<lparr>status_code = 500,
     content = [(''valid'', JBool False), (''error'', JStr ''VALIDATION_ERROR''),
                (''message'', JStr msg)]\<rparr>"

definition license_valid :: "license_row \<Rightarrow> response" where
  "license_valid license_data = \<lparr>status_code = 200,
     content = [(''valid'', JBool True), (''customer_name'', JStr (customer_name license_data)),
                (''plan'', json_of (plan license_data)),
                (''expires_at'', json_of (expires_at license_data)),
                (''message'', JStr ''License valid'')]\<rparr>"

text \<open>
  \<^verbatim>\<open>if license_data['expires_at']:\<close> parses the column when it is neither null nor
  empty, and compares the naive \<^verbatim>\<open>datetime.now()\<close> with it; against a value with a
  time zone the comparison raises \<^verbatim>\<open>TypeError\<close>. The result is the parsed date when
  the license has expired.
\<close>

definition check_expired :: "pylib \<Rightarrow> int \<Rightarrow> string option \<Rightarrow> string + int option" where
  "check_expired lib now exp =
     (case exp of
        None \<Rightarrow> Inr None
      | Some s \<Rightarrow>
          if s = [] then Inr None
          else (case fromisoformat lib s of
                  Inl e \<Rightarrow> Inl e
                | Inr (Aware t) \<Rightarrow> Inl ''can't compare offset-naive and offset-aware datetimes''
                | Inr (Naive t) \<Rightarrow> if t < now then Inr (Some t) else Inr None))"

text \<open>\<^verbatim>\<open>UPDATE licenses SET last_validated = ? WHERE license_key = ?\<close>.\<close>

definition touch_license :: "string \<Rightarrow> string \<Rightarrow> store \<Rightarrow> store" where
  "touch_license key ts db =
     db\<lparr>licenses := map (\<lambda>r. if license_key r = key then r\<lparr>last_validated := Some ts\<rparr> else r)
                       (licenses db)\<rparr>"

text \<open>
  \<open>now\<close> is the \<^verbatim>\<open>datetime.now()\<close> of the expiry check and \<open>now'\<close> that of the
  \<^verbatim>\<open>UPDATE\<close>.
\<close>

definition validate_license ::
  "pylib \<Rightarrow> db_faults \<Rightarrow> int \<Rightarrow> int \<Rightarrow> LicenseValidation \<Rightarrow> store \<Rightarrow> response \<times> store" where
  "validate_license lib flt now now' validation db =
     (case flt Connect of
        Some e \<Rightarrow> (validation_error e, db)
      | None \<Rightarrow>
     (case flt Select of
        Some e \<Rightarrow> (validation_error e, db)
      | None \<Rightarrow>
     (case find (\<lambda>r. license_key r = val_license_key validation) (licenses db) of
        None \<Rightarrow> (rejected ''INVALID_LICENSE'' ''License key not found'', db)
      | Some license_data \<Rightarrow>
          if status license_data \<noteq> Some ''active'' then
            (rejected ''LICENSE_INACTIVE'' (''License status: '' @ py_str (status license_data)), db)
          else
     (case check_expired lib now (expires_at license_data) of
        Inl e \<Rightarrow> (validation_error e, db)
      | Inr (Some t) \<Rightarrow>
          (rejected ''LICENSE_EXPIRED'' (''License expired on '' @ strftime_ymd lib t), db)
      | Inr None \<Rightarrow>
          if lic_customer_id license_data \<noteq> val_customer_id validation then
            (rejected ''CUSTOMER_MISMATCH'' ''License key does not match customer ID'', db)
          else
     (case flt Update of
        Some e \<Rightarrow> (validation_error e, db)
      | None \<Rightarrow>
     (case flt Commit of
        Some e \<Rightarrow> (validation_error e, db)
      | None \<Rightarrow>
          (license_valid license_data,
           touch_license (val_license_key validation) (isoformat lib now') db)))))))"

text \<open>
  A license is unexpired at \<open>now\<close> when its \<^verbatim>\<open>expires_at\<close> is null or empty, or parses to
  a naive date that \<open>now\<close> has not passed.
\<close>

definition unexpired :: "pylib \<Rightarrow> int \<Rightarrow> license_row \<Rightarrow> bool" where
  "unexpired lib now r =
     (case expires_at r of None \<Rightarrow> True
      | Some s \<Rightarrow> s = [] \<or> (case fromisoformat lib s of Inr (Naive t) \<Rightarrow> \<not> t < now | _ \<Rightarrow> False))"

subsection \<open>Sample data\<close>

text \<open>
  The library's parsing and printing on the dates used in the examples: 2020-01-01T00:00:00,
  2026-11-04T12:00:00 and 2027-10-30T12:00:00, with a license, a store and a request.
\<close>

definition sample_lib :: pylib where
  "sample_lib = \<lparr>fromisoformat = (\<lambda>s. if s = ''2020-01-01T00:00:00'' then Inr (Naive 63713433600000000)
                                    else if s = ''2027-10-30T12:00:00'' then Inr (Naive 63960494400000000)
                                    else Inl (''Invalid isoformat string'')),
                  isoformat = (\<lambda>t. if t = 63929390400000000 then ''2026-11-04T12:00:00''
                                   else if t = 63960494400000000 then ''2027-10-30T12:00:00''
                                   else ''2020-01-01T00:00:00''),
                  strftime_ymd = (\<lambda>t. if t = 63713433600000000 then ''2020-01-01'' else ''2027-10-30'')\<rparr>"

definition zero_entropy :: entropy where
  "zero_entropy = (\<lambda>_. 0)"

definition no_faults :: db_faults where
  "no_faults = (\<lambda>_. None)"


definition sample_license :: "string option \<Rightarrow> string option \<Rightarrow> license_row" where
  "sample_license st exp = \<lparr>license_key = ''HL-0A'', lic_customer_id = ''acme'',
      customer_name = ''Acme Corp'', plan = Some ''standard'', status = st,
      created_at = Some ''2019-01-01 00:00:00'', expires_at = exp, last_validated = None\<rparr>"

definition sample_store :: "license_row list \<Rightarrow> store" where
  "sample_store ls = \<lparr>customer_instances = [], version_history = [], history_seq = 0, licenses = ls\<rparr>"

definition sample_request :: "string \<Rightarrow> string \<Rightarrow> LicenseValidation" where
  "sample_request k c = \<lparr>val_license_key = k, val_customer_id = c, val_app_version = ''1.0.0'',
      val_timestamp = ''2026-11-04T12:00:00''\<rparr>"

definition sample_instance :: instance_row where
  "sample_instance = \<lparr>customer_id = ''acme'', version = ''1.0.0'', url = ''https://acme.example'',
      health_status = Some ''healthy'', last_heartbeat = Some ''2026-11-01T08:00:00'',
      first_seen = Some ''2026-01-18 09:30:00'', total_users = Some 10,
      total_messages = Some 250\<rparr>"

definition other_instance :: instance_row where
  "other_instance = \<lparr>customer_id = ''globex'', version = ''0.9.0'', url = ''https://globex.example'',
      health_status = Some ''degraded'', last_heartbeat = Some ''2026-10-30T17:45:00'',
      first_seen = Some ''2026-02-02 12:00:00'', total_users = Some 3,
      total_messages = Some 40\<rparr>"

definition instance_store :: "instance_row list \<Rightarrow> store" where
  "instance_store rows = \<lparr>customer_instances = rows, version_history = [], history_seq = 0,
      licenses = []\<rparr>"

definition sample_registration :: "string \<Rightarrow> string \<Rightarrow> InstanceRegistration" where
  "sample_registration c v = \<lparr>reg_customer_id = c, reg_version = v,
      reg_url = ''https://acme.example/app'', reg_health = ''healthy'',
      reg_timestamp = ''2026-11-04T12:00:00'', reg_total_users = 12,
      reg_total_messages = 300\<rparr>"

definition sample_config :: "string \<Rightarrow> config" where
  "sample_config pw = \<lparr>MASTER_ADMIN_USERNAME = ''admin'', MASTER_ADMIN_PASSWORD = pw\<rparr>"

subsection \<open>Properties of the key generator\<close>

lemma length_hexlify: "length (hexlify bs) = 2 * length bs"
  by (induction bs) (simp_all add: hexlify_def)

lemma length_token_hex: "length (token_hex rnd pos n) = 2 * n"
  by (simp add: token_hex_def token_bytes_def length_hexlify)

lemma upt_0_4: "[0..<4] = [0, 1, 2, 3::nat]"
  by code_simp

lemma length_generate_license_key: "length (generate_license_key rnd) = 38"
  by (simp add: generate_license_key_def upper_def length_token_hex upt_0_4)

lemma key_groups_length: "key_groups n s \<Longrightarrow> length s = 5 * n"
proof (induction n arbitrary: s)
  case 0
  then show ?case by simp
next
  case (Suc n)
  from Suc.prems have l: "5 \<le> length s" and g: "key_groups n (drop 5 s)" by simp_all
  from Suc.IH [OF g] have "length s - 5 = 5 * n" by simp
  with l show ?case by simp
qed

lemma key_format_length: "key_format s \<Longrightarrow> length s = 22"
proof -
  assume k: "key_format s"
  then have "key_groups 4 (drop 2 s)" by (simp add: key_format_def)
  from key_groups_length [OF this] show ?thesis by simp
qed

lemma generated_key_never_in_format: "\<not> key_format (generate_license_key rnd)"
  using key_format_length [of "generate_license_key rnd"]
  by (auto simp add: length_generate_license_key)

lemma zero_entropy_key:
  "generate_license_key zero_entropy = ''HL-00000000-00000000-00000000-00000000''"
  unfolding zero_entropy_def by code_simp

text \<open>
  C3. Every generated key is claimed to have the form \<^verbatim>\<open>HL-XXXX-XXXX-XXXX-XXXX\<close>
  with groups of four uppercase hexadecimal digits. \<^verbatim>\<open>token_hex(4)\<close> prints four
  bytes, that is eight digits, so each group has eight digits: when the random source
  delivers zero bytes the key is \<^verbatim>\<open>HL-00000000-00000000-00000000-00000000\<close>, which is
  not of the documented format.
\<close>

theorem generate_license_key_zero_entropy:
  "generate_license_key zero_entropy = ''HL-00000000-00000000-00000000-00000000''
   \<and> \<not> key_format (generate_license_key zero_entropy)"
  by (rule conjI [OF zero_entropy_key generated_key_never_in_format])


subsection \<open>Properties of the license validator\<close>

lemma check_expired_unexpired:
  "unexpired lib now r \<Longrightarrow> check_expired lib now (expires_at r) = Inr None"
  by (auto simp add: unexpired_def check_expired_def split: option.splits sum.splits pydatetime.splits)

text \<open>
  C1. When the connection and the lookup go through, \<^verbatim>\<open>validate_license\<close> checks
  in the order key, status, expiry, customer and answers HTTP 401 with the code of the
  first check that fails: \<^verbatim>\<open>INVALID_LICENSE\<close> for an unknown key; \<^verbatim>\<open>LICENSE_INACTIVE\<close>
  for a license whose status is not \<^verbatim>\<open>active\<close>, whatever its expiry and customer;
  \<^verbatim>\<open>LICENSE_EXPIRED\<close> for an active license whose \<^verbatim>\<open>expires_at\<close> is a date that
  \<open>now\<close> has passed, whatever its customer; \<^verbatim>\<open>CUSTOMER_MISMATCH\<close> for an active,
  unexpired license of another customer. Each response is spelled out with its status,
  its \<^verbatim>\<open>valid: false\<close>, its error code and its message; the store is returned as it
  was.
\<close>

theorem validate_license_fail_fast:
  assumes "flt Connect = None" and "flt Select = None"
  shows "(find (\<lambda>r. license_key r = val_license_key v) (licenses db) = None \<longrightarrow>
            validate_license lib flt now now' v db =
              (\<lparr>status_code = 401,
         content = [(''valid'', JBool False), (''error'', JStr ''INVALID_LICENSE''),
                    (''message'', JStr ''License key not found'')]\<rparr>, db))
       \<and> (\<forall>row. find (\<lambda>r. license_key r = val_license_key v) (licenses db) = Some row
              \<and> status row \<noteq> Some ''active'' \<longrightarrow>
            validate_license lib flt now now' v db =
              (\<lparr>status_code = 401,
         content = [(''valid'', JBool False), (''error'', JStr ''LICENSE_INACTIVE''),
                    (''message'', JStr (''License status: '' @ py_str (status row)))]\<rparr>, db))
       \<and> (\<forall>row s t. find (\<lambda>r. license_key r = val_license_key v) (licenses db) = Some row
              \<and> status row = Some ''active'' \<and> expires_at row = Some s \<and> s \<noteq> []
              \<and> fromisoformat lib s = Inr (Naive t) \<and> t < now \<longrightarrow>
            validate_license lib flt now now' v db =
              (\<lparr>status_code = 401,
         content = [(''valid'', JBool False), (''error'', JStr ''LICENSE_EXPIRED''),
                    (''message'', JStr (''License expired on '' @ strftime_ymd lib t))]\<rparr>, db))
       \<and> (\<forall>row. find (\<lambda>r. license_key r = val_license_key v) (licenses db) = Some row
              \<and> status row = Some ''active'' \<and> unexpired lib now row
              \<and> lic_customer_id row \<noteq> val_customer_id v \<longrightarrow>
            validate_license lib flt now now' v db =
              (\<lparr>status_code = 401,
         content = [(''valid'', JBool False), (''error'', JStr ''CUSTOMER_MISMATCH''),
                    (''message'', JStr ''License key does not match customer ID'')]\<rparr>, db))"
proof (intro conjI allI impI)
  assume "find (\<lambda>r. license_key r = val_license_key v) (licenses db) = None"
  with assms show "validate_license lib flt now now' v db =
      (\<lparr>status_code = 401,
         content = [(''valid'', JBool False), (''error'', JStr ''INVALID_LICENSE''),
                    (''message'', JStr ''License key not found'')]\<rparr>, db)"
    by (simp add: validate_license_def rejected_def)
next
  fix row
  assume "find (\<lambda>r. license_key r = val_license_key v) (licenses db) = Some row
            \<and> status row \<noteq> Some ''active''"
  with assms show "validate_license lib flt now now' v db =
      (\<lparr>status_code = 401,
         content = [(''valid'', JBool False), (''error'', JStr ''LICENSE_INACTIVE''),
                    (''message'', JStr (''License status: '' @ py_str (status row)))]\<rparr>, db)"
    by (simp add: validate_license_def rejected_def)
next
  fix row s t
  assume "find (\<lambda>r. license_key r = val_license_key v) (licenses db) = Some row
            \<and> status row = Some ''active'' \<and> expires_at row = Some s \<and> s \<noteq> []
            \<and> fromisoformat lib s = Inr (Naive t) \<and> t < now"
  with assms show "validate_license lib flt now now' v db =
      (\<lparr>status_code = 401,
         content = [(''valid'', JBool False), (''error'', JStr ''LICENSE_EXPIRED''),
                    (''message'', JStr (''License expired on '' @ strftime_ymd lib t))]\<rparr>, db)"
    by (simp add: validate_license_def rejected_def check_expired_def)
next
  fix row
  assume "find (\<lambda>r. license_key r = val_license_key v) (licenses db) = Some row
            \<and> status row = Some ''active'' \<and> unexpired lib now row
            \<and> lic_customer_id row \<noteq> val_customer_id v"
  with assms show "validate_license lib flt now now' v db =
      (\<lparr>status_code = 401,
         content = [(''valid'', JBool False), (''error'', JStr ''CUSTOMER_MISMATCH''),
                    (''message'', JStr ''License key does not match customer ID'')]\<rparr>, db)"
    by (simp add: validate_license_def rejected_def check_expired_unexpired)
qed

lemma rejected_status: "status_code (rejected c m) = 401"
  by (simp add: rejected_def)

theorem validate_license_fail_fast_witness:
  "validate_license sample_lib no_faults 63929390400000000 63929390400000000
      (sample_request ''HL-0B'' ''acme'') (sample_store [sample_license (Some ''active'') None])
     = (\<lparr>status_code = 401,
         content = [(''valid'', JBool False), (''error'', JStr ''INVALID_LICENSE''),
                    (''message'', JStr ''License key not found'')]\<rparr>,
        sample_store [sample_license (Some ''active'') None])
   \<and> validate_license sample_lib no_faults 63929390400000000 63929390400000000
      (sample_request ''HL-0A'' ''other'')
      (sample_store [sample_license (Some ''revoked'') (Some ''2020-01-01T00:00:00'')])
     = (\<lparr>status_code = 401,
         content = [(''valid'', JBool False), (''error'', JStr ''LICENSE_INACTIVE''),
                    (''message'', JStr ''License status: revoked'')]\<rparr>,
        sample_store [sample_license (Some ''revoked'') (Some ''2020-01-01T00:00:00'')])
   \<and> validate_license sample_lib no_faults 63929390400000000 63929390400000000
      (sample_request ''HL-0A'' ''other'')
      (sample_store [sample_license (Some ''active'') (Some ''2020-01-01T00:00:00'')])
     = (\<lparr>status_code = 401,
         content = [(''valid'', JBool False), (''error'', JStr ''LICENSE_EXPIRED''),
                    (''message'', JStr ''License expired on 2020-01-01'')]\<rparr>,
        sample_store [sample_license (Some ''active'') (Some ''2020-01-01T00:00:00'')])
   \<and> validate_license sample_lib no_faults 63929390400000000 63929390400000000
      (sample_request ''HL-0A'' ''other'')
      (sample_store [sample_license (Some ''active'') (Some ''2027-10-30T12:00:00'')])
     = (\<lparr>status_code = 401,
         content = [(''valid'', JBool False), (''error'', JStr ''CUSTOMER_MISMATCH''),
                    (''message'', JStr ''License key does not match customer ID'')]\<rparr>,
        sample_store [sample_license (Some ''active'') (Some ''2027-10-30T12:00:00'')])"
proof -
  have nf: "no_faults Connect = None" "no_faults Select = None"
    by (simp_all add: no_faults_def)
  note t = validate_license_fail_fast [OF nf, of _ _ sample_lib 63929390400000000 63929390400000000]
  have a: "find (\<lambda>r. license_key r = val_license_key (sample_request ''HL-0B'' ''acme''))
             (licenses (sample_store [sample_license (Some ''active'') None])) = None"
    by (simp add: sample_request_def sample_store_def sample_license_def)
  have b: "find (\<lambda>r. license_key r = val_license_key (sample_request ''HL-0A'' ''other''))
             (licenses (sample_store [sample_license st ex])) = Some (sample_license st ex)" for st ex
    by (simp add: sample_request_def sample_store_def sample_license_def)
  show ?thesis
    apply (intro conjI)
    subgoal using t [of "sample_request ''HL-0B'' ''acme''" "sample_store [sample_license (Some ''active'') None]"] a by blast
    subgoal using t [of "sample_request ''HL-0A'' ''other''" "sample_store [sample_license (Some ''revoked'') (Some ''2020-01-01T00:00:00'')]"] b [of "Some ''revoked''" "Some ''2020-01-01T00:00:00''"]
      by (simp add: sample_license_def py_str_def)
    subgoal using t [of "sample_request ''HL-0A'' ''other''" "sample_store [sample_license (Some ''active'') (Some ''2020-01-01T00:00:00'')]"] b [of "Some ''active''" "Some ''2020-01-01T00:00:00''"]
      by (simp add: sample_license_def sample_lib_def)
    subgoal using t [of "sample_request ''HL-0A'' ''other''" "sample_store [sample_license (Some ''active'') (Some ''2027-10-30T12:00:00'')]"] b [of "Some ''active''" "Some ''2027-10-30T12:00:00''"]
      by (simp add: sample_license_def sample_lib_def unexpired_def sample_request_def)
    done
qed



text \<open>
  C7. Whenever \<^verbatim>\<open>validate_license\<close> answers HTTP 401, which it does only with one of
  \<^verbatim>\<open>INVALID_LICENSE\<close>, \<^verbatim>\<open>LICENSE_INACTIVE\<close>, \<^verbatim>\<open>LICENSE_EXPIRED\<close> and
  \<^verbatim>\<open>CUSTOMER_MISMATCH\<close>, the store it leaves is the store it found: no row of
  \<^verbatim>\<open>licenses\<close>, and no \<^verbatim>\<open>last_validated\<close>, has changed.
\<close>

theorem validate_license_rejected_store_unchanged:
  "status_code (fst (validate_license lib flt now now' v db)) = 401 \<Longrightarrow>
   snd (validate_license lib flt now now' v db) = db"
  by (simp add: validate_license_def license_valid_def split: option.splits sum.splits if_splits)

theorem validate_license_rejected_store_unchanged_witness:
  "status_code (fst (validate_license sample_lib no_faults 63929390400000000 63929390400000000
      (sample_request ''HL-0A'' ''other'')
      (sample_store [sample_license (Some ''active'') (Some ''2020-01-01T00:00:00'')]))) = 401
   \<and> snd (validate_license sample_lib no_faults 63929390400000000 63929390400000000
      (sample_request ''HL-0A'' ''other'')
      (sample_store [sample_license (Some ''active'') (Some ''2020-01-01T00:00:00'')]))
     = sample_store [sample_license (Some ''active'') (Some ''2020-01-01T00:00:00'')]"
proof -
  have h: "status_code (fst (validate_license sample_lib no_faults 63929390400000000 63929390400000000
      (sample_request ''HL-0A'' ''other'')
      (sample_store [sample_license (Some ''active'') (Some ''2020-01-01T00:00:00'')]))) = 401"
    by (simp add: validate_license_def no_faults_def sample_request_def sample_store_def
        sample_license_def sample_lib_def check_expired_def rejected_def)
  from h validate_license_rejected_store_unchanged [OF h] show ?thesis by (rule conjI)
qed






subsection \<open>Properties of license creation\<close>

lemma find_Some_ex: "x \<in> set xs \<Longrightarrow> P x \<Longrightarrow> \<exists>y. find P xs = Some y \<and> y \<in> set xs \<and> P y"
  by (induction xs) auto

text \<open>
  C4. When the customer already has a license row, \<^verbatim>\<open>create_license\<close> leaves the store
  as it was, inserting nothing and altering no row, and returns \<^verbatim>\<open>None\<close>; when the
  connection and the lookup go through it reports the duplicate customer, naming the
  key of the existing license.
\<close>

theorem create_license_duplicate_customer:
  assumes "row \<in> set (licenses db)" and "lic_customer_id row = cid"
  shows "snd (create_license lib flt rnd now cur_ts cid cname plan_arg months_arg db) = db
       \<and> return_value (fst (create_license lib flt rnd now cur_ts cid cname plan_arg months_arg db)) = None
       \<and> (flt Connect = None \<and> flt Select = None \<longrightarrow>
            (\<exists>existing. find (\<lambda>r. lic_customer_id r = cid) (licenses db) = Some existing
               \<and> fst (create_license lib flt rnd now cur_ts cid cname plan_arg months_arg db)
                   = DuplicateCustomer cid (license_key existing)))"
proof -
  from find_Some_ex [of row "licenses db" "\<lambda>r. lic_customer_id r = cid"] assms
  obtain existing where f: "find (\<lambda>r. lic_customer_id r = cid) (licenses db) = Some existing"
    by blast
  show ?thesis using f
    by (simp add: create_license_def Let_def split: option.splits)
qed

theorem create_license_duplicate_customer_witness:
  "create_license sample_lib no_faults zero_entropy 63929390400000000 ''2026-11-04 11:00:00''
      ''acme'' ''Acme Again'' (Some ''pro'') (Some (Some 1))
      (sample_store [sample_license (Some ''active'') None])
    = (DuplicateCustomer ''acme'' ''HL-0A'', sample_store [sample_license (Some ''active'') None])"
proof -
  have r: "sample_license (Some ''active'') None
      \<in> set (licenses (sample_store [sample_license (Some ''active'') None]))"
    by (simp add: sample_store_def)
  have c: "lic_customer_id (sample_license (Some ''active'') None) = ''acme''"
    by (simp add: sample_license_def)
  from create_license_duplicate_customer [OF r c, of sample_lib no_faults zero_entropy
      63929390400000000 "''2026-11-04 11:00:00''" "''Acme Again''" "Some ''pro''" "Some (Some 1)"]
  show ?thesis
    by (auto simp add: no_faults_def sample_store_def sample_license_def prod_eq_iff)
qed

lemma find_None_notin: "\<forall>r\<in>set xs. \<not> P r \<Longrightarrow> find P xs = None"
  by (simp add: find_None_iff)

lemma expiration_in_range:
  assumes "m \<noteq> 0" and "0 \<le> now + m * 30 * 86400000000"
    and "now + m * 30 * 86400000000 \<le> datetime_max" and "\<bar>m * 30\<bar> \<le> 999999999"
  shows "expiration lib now (Some m) = Inr (Some (isoformat lib (now + m * 30 * 86400000000)))"
  using assms by (simp add: expiration_def timedelta_days_def datetime_add_def)

text \<open>
  C9, as claimed: a duration left out gives a null \<^verbatim>\<open>expires_at\<close>, and every positive
  number of months gives now plus thirty days a month. Called on 2026-11-04T12:00:00
  without \<^verbatim>\<open>months\<close>, \<^verbatim>\<open>create_license\<close> takes the default of twelve months and
  stores the expiry 2027-10-30T12:00:00; called with 400000 months, the date is past
  the year 9999, the addition raises \<^verbatim>\<open>OverflowError\<close> and no row is stored.
\<close>

theorem create_license_months_counterexample:
  "map expires_at (licenses (snd (create_license sample_lib no_faults zero_entropy
      63929390400000000 ''2026-11-04 11:00:00'' ''acme'' ''Acme Corp'' None None
      (sample_store [])))) = [Some ''2027-10-30T12:00:00'']
   \<and> create_license sample_lib no_faults zero_entropy
      63929390400000000 ''2026-11-04 11:00:00'' ''acme'' ''Acme Corp'' None (Some (Some 400000))
      (sample_store []) = (Failed OverflowError, sample_store [])"
  by (simp add: create_license_def Let_def no_faults_def sample_store_def zero_entropy_key
      expiration_def timedelta_days_def datetime_add_def datetime_max_def insert_license_def
      sample_lib_def)

text \<open>
  C9, amended. For a customer without a license, a fresh key and database calls that
  go through: a positive number of months \<open>m\<close> whose expiry is no later than the last
  \<^verbatim>\<open>datetime\<close> stores \<^verbatim>\<open>expires_at\<close> as now plus \<open>m * 30\<close> days, in a row of status
  \<^verbatim>\<open>active\<close>; a later expiry raises \<^verbatim>\<open>OverflowError\<close> and stores nothing;
  \<^verbatim>\<open>months=None\<close> or \<open>0\<close> stores a null \<^verbatim>\<open>expires_at\<close>, as does \<^verbatim>\<open>--months 0\<close> on the
  command line; and a duration left out, in the call or on the command line, is twelve
  months.
\<close>

theorem create_license_expiry:
  assumes "flt Connect = None" and "flt Select = None"
    and "flt Insert = None" and "flt Commit = None"
    and "\<forall>r\<in>set (licenses db). lic_customer_id r \<noteq> cid"
    and "\<forall>r\<in>set (licenses db). license_key r \<noteq> generate_license_key rnd"
    and "0 \<le> now" and "now \<le> datetime_max"
  shows "(\<forall>m. 0 < m \<and> now + m * 30 * 86400000000 \<le> datetime_max \<longrightarrow>
            create_license lib flt rnd now cur_ts cid cname (Some pl) (Some (Some m)) db =
              (Created (generate_license_key rnd),
               db\<lparr>licenses := licenses db @
                 [\<lparr>license_key = generate_license_key rnd, lic_customer_id = cid,
                   customer_name = cname, plan = Some pl, status = Some ''active'',
                   created_at = Some cur_ts,
                   expires_at = Some (isoformat lib (now + m * 30 * 86400000000)),
                   last_validated = None\<rparr>]\<rparr>))
       \<and> (\<forall>m. 0 < m \<and> datetime_max < now + m * 30 * 86400000000 \<longrightarrow>
            create_license lib flt rnd now cur_ts cid cname (Some pl) (Some (Some m)) db =
              (Failed OverflowError, db))
       \<and> (\<forall>months. months = None \<or> months = Some 0 \<longrightarrow>
            create_license lib flt rnd now cur_ts cid cname (Some pl) (Some months) db =
              (Created (generate_license_key rnd),
               db\<lparr>licenses := licenses db @
                 [\<lparr>license_key = generate_license_key rnd, lic_customer_id = cid,
                   customer_name = cname, plan = Some pl, status = Some ''active'',
                   created_at = Some cur_ts, expires_at = None, last_validated = None\<rparr>]\<rparr>))
       \<and> create_license lib flt rnd now cur_ts cid cname (Some pl) None db =
           create_license lib flt rnd now cur_ts cid cname (Some pl) (Some (Some 12)) db
       \<and> main_create lib flt rnd now cur_ts cid cname None (Some 0) db =
           (Some (Created (generate_license_key rnd)),
            db\<lparr>licenses := licenses db @
              [\<lparr>license_key = generate_license_key rnd, lic_customer_id = cid,
                customer_name = cname, plan = Some ''standard'', status = Some ''active'',
                created_at = Some cur_ts, expires_at = None, last_validated = None\<rparr>]\<rparr>)
       \<and> main_create lib flt rnd now cur_ts cid cname None None db =
           (Some (fst (create_license lib flt rnd now cur_ts cid cname (Some ''standard'') (Some (Some 12)) db)),
            snd (create_license lib flt rnd now cur_ts cid cname (Some ''standard'') (Some (Some 12)) db))"
proof -
  have f: "find (\<lambda>r. lic_customer_id r = cid) (licenses db) = None"
    using assms(5) by (simp add: find_None_iff)
  have ins: "insert_license flt cur_ts (generate_license_key rnd) cid cname p e db =
      Inr (db\<lparr>licenses := licenses db @
                 [\<lparr>license_key = generate_license_key rnd, lic_customer_id = cid,
                   customer_name = cname, plan = Some p, status = Some ''active'',
                   created_at = Some cur_ts, expires_at = e, last_validated = None\<rparr>]\<rparr>)" for p e
    using assms(3,5,6) by (auto simp add: insert_license_def)
  have cr: "create_license lib flt rnd now cur_ts cid cname (Some p) (Some months) db =
      (case expiration lib now months of
         Inl e \<Rightarrow> (Failed e, db)
       | Inr e \<Rightarrow> (Created (generate_license_key rnd),
           db\<lparr>licenses := licenses db @
                 [\<lparr>license_key = generate_license_key rnd, lic_customer_id = cid,
                   customer_name = cname, plan = Some p, status = Some ''active'',
                   created_at = Some cur_ts, expires_at = e, last_validated = None\<rparr>]\<rparr>))" for p months
    using assms(1,2,4) f by (simp add: create_license_def ins Let_def split: sum.splits)
  have 1: "expiration lib now (Some m) = Inr (Some (isoformat lib (now + m * 30 * 86400000000)))"
    if "0 < m" and "now + m * 30 * 86400000000 \<le> datetime_max" for m
  proof (rule expiration_in_range)
    show "m \<noteq> 0" using that by simp
    show "0 \<le> now + m * 30 * 86400000000" using that assms(7) by simp
    show "now + m * 30 * 86400000000 \<le> datetime_max" using that by simp
    show "\<bar>m * 30\<bar> \<le> 999999999" using that assms(7) by (simp add: datetime_max_def)
  qed
  have 2: "expiration lib now (Some m) = Inl OverflowError"
    if "0 < m" and "datetime_max < now + m * 30 * 86400000000" for m
    using that by (simp add: expiration_def timedelta_days_def datetime_add_def)
  have 3: "expiration lib now None = Inr None" "expiration lib now (Some 0) = Inr None"
    by (simp_all add: expiration_def)
  have 4: "create_license lib flt rnd now cur_ts cid cname (Some pl) None db =
           create_license lib flt rnd now cur_ts cid cname (Some pl) (Some (Some 12)) db"
    by (simp add: create_license_def Let_def)
  show ?thesis
  proof (intro conjI allI impI)
    fix m assume "0 < m \<and> now + m * 30 * 86400000000 \<le> datetime_max"
    then show "create_license lib flt rnd now cur_ts cid cname (Some pl) (Some (Some m)) db =
              (Created (generate_license_key rnd),
               db\<lparr>licenses := licenses db @
                 [\<lparr>license_key = generate_license_key rnd, lic_customer_id = cid,
                   customer_name = cname, plan = Some pl, status = Some ''active'',
                   created_at = Some cur_ts,
                   expires_at = Some (isoformat lib (now + m * 30 * 86400000000)),
                   last_validated = None\<rparr>]\<rparr>)"
      by (simp add: cr 1)
  next
    fix m assume "0 < m \<and> datetime_max < now + m * 30 * 86400000000"
    then show "create_license lib flt rnd now cur_ts cid cname (Some pl) (Some (Some m)) db =
              (Failed OverflowError, db)"
      by (simp add: cr 2)
  next
    fix months :: "int option" assume "months = None \<or> months = Some 0"
    then show "create_license lib flt rnd now cur_ts cid cname (Some pl) (Some months) db =
              (Created (generate_license_key rnd),
               db\<lparr>licenses := licenses db @
                 [\<lparr>license_key = generate_license_key rnd, lic_customer_id = cid,
                   customer_name = cname, plan = Some pl, status = Some ''active'',
                   created_at = Some cur_ts, expires_at = None, last_validated = None\<rparr>]\<rparr>)"
      by (auto simp add: cr 3)
  next
    show "create_license lib flt rnd now cur_ts cid cname (Some pl) None db =
           create_license lib flt rnd now cur_ts cid cname (Some pl) (Some (Some 12)) db"
      by (rule 4)
  next
    show "main_create lib flt rnd now cur_ts cid cname None (Some 0) db =
           (Some (Created (generate_license_key rnd)),
            db\<lparr>licenses := licenses db @
              [\<lparr>license_key = generate_license_key rnd, lic_customer_id = cid,
                customer_name = cname, plan = Some ''standard'', status = Some ''active'',
                created_at = Some cur_ts, expires_at = None, last_validated = None\<rparr>]\<rparr>)"
      by (simp add: main_create_def Let_def cr 3)
  next
    show "main_create lib flt rnd now cur_ts cid cname None None db =
           (Some (fst (create_license lib flt rnd now cur_ts cid cname (Some ''standard'') (Some (Some 12)) db)),
            snd (create_license lib flt rnd now cur_ts cid cname (Some ''standard'') (Some (Some 12)) db))"
      by (simp add: main_create_def Let_def split_beta)
  qed
qed

theorem create_license_expiry_witness:
  "create_license sample_lib no_faults zero_entropy 63929390400000000 ''2026-11-04 11:00:00''
      ''acme'' ''Acme Corp'' (Some ''pro'') (Some (Some 12)) (sample_store [])
    = (Created ''HL-00000000-00000000-00000000-00000000'',
       sample_store [\<lparr>license_key = ''HL-00000000-00000000-00000000-00000000'',
         lic_customer_id = ''acme'', customer_name = ''Acme Corp'', plan = Some ''pro'',
         status = Some ''active'', created_at = Some ''2026-11-04 11:00:00'',
         expires_at = Some ''2027-10-30T12:00:00'', last_validated = None\<rparr>])
   \<and> create_license sample_lib no_faults zero_entropy 63929390400000000 ''2026-11-04 11:00:00''
      ''acme'' ''Acme Corp'' (Some ''pro'') (Some (Some 0)) (sample_store [])
    = (Created ''HL-00000000-00000000-00000000-00000000'',
       sample_store [\<lparr>license_key = ''HL-00000000-00000000-00000000-00000000'',
         lic_customer_id = ''acme'', customer_name = ''Acme Corp'', plan = Some ''pro'',
         status = Some ''active'', created_at = Some ''2026-11-04 11:00:00'',
         expires_at = None, last_validated = None\<rparr>])
   \<and> create_license sample_lib no_faults zero_entropy 63929390400000000 ''2026-11-04 11:00:00''
      ''acme'' ''Acme Corp'' (Some ''pro'') (Some (Some 400000)) (sample_store [])
    = (Failed OverflowError, sample_store [])"
proof -
  have n: "no_faults Connect = None" "no_faults Select = None"
    "no_faults Insert = None" "no_faults Commit = None"
    by (simp_all add: no_faults_def)
  have e: "\<forall>r\<in>set (licenses (sample_store [])). lic_customer_id r \<noteq> ''acme''"
    "\<forall>r\<in>set (licenses (sample_store [])). license_key r \<noteq> generate_license_key zero_entropy"
    by (simp_all add: sample_store_def)
  have b: "(0::int) \<le> 63929390400000000" "(63929390400000000::int) \<le> datetime_max"
    by (simp_all add: datetime_max_def)
  note t = create_license_expiry [where lib = sample_lib and cur_ts = "''2026-11-04 11:00:00''"
      and cname = "''Acme Corp''" and pl = "''pro''", OF n e b]
  from t have 1: "0 < (12::int) \<and> 63929390400000000 + 12 * 30 * 86400000000 \<le> datetime_max \<longrightarrow>
      create_license sample_lib no_faults zero_entropy 63929390400000000 ''2026-11-04 11:00:00''
        ''acme'' ''Acme Corp'' (Some ''pro'') (Some (Some 12)) (sample_store [])
      = (Created (generate_license_key zero_entropy),
         sample_store []\<lparr>licenses := licenses (sample_store []) @
           [\<lparr>license_key = generate_license_key zero_entropy, lic_customer_id = ''acme'',
             customer_name = ''Acme Corp'', plan = Some ''pro'', status = Some ''active'',
             created_at = Some ''2026-11-04 11:00:00'',
             expires_at = Some (isoformat sample_lib (63929390400000000 + 12 * 30 * 86400000000)),
             last_validated = None\<rparr>]\<rparr>)"
    by blast
  from t have 2: "Some (0::int) = None \<or> Some (0::int) = Some 0 \<longrightarrow>
      create_license sample_lib no_faults zero_entropy 63929390400000000 ''2026-11-04 11:00:00''
        ''acme'' ''Acme Corp'' (Some ''pro'') (Some (Some 0)) (sample_store [])
      = (Created (generate_license_key zero_entropy),
         sample_store []\<lparr>licenses := licenses (sample_store []) @
           [\<lparr>license_key = generate_license_key zero_entropy, lic_customer_id = ''acme'',
             customer_name = ''Acme Corp'', plan = Some ''pro'', status = Some ''active'',
             created_at = Some ''2026-11-04 11:00:00'',
             expires_at = None, last_validated = None\<rparr>]\<rparr>)"
    by blast
  from t have 3: "0 < (400000::int) \<and> datetime_max < 63929390400000000 + 400000 * 30 * 86400000000 \<longrightarrow>
      create_license sample_lib no_faults zero_entropy 63929390400000000 ''2026-11-04 11:00:00''
        ''acme'' ''Acme Corp'' (Some ''pro'') (Some (Some 400000)) (sample_store [])
      = (Failed OverflowError, sample_store [])"
    by blast
  show ?thesis
  proof (intro conjI)
    show "create_license sample_lib no_faults zero_entropy 63929390400000000 ''2026-11-04 11:00:00''
      ''acme'' ''Acme Corp'' (Some ''pro'') (Some (Some 12)) (sample_store [])
    = (Created ''HL-00000000-00000000-00000000-00000000'',
       sample_store [\<lparr>license_key = ''HL-00000000-00000000-00000000-00000000'',
         lic_customer_id = ''acme'', customer_name = ''Acme Corp'', plan = Some ''pro'',
         status = Some ''active'', created_at = Some ''2026-11-04 11:00:00'',
         expires_at = Some ''2027-10-30T12:00:00'', last_validated = None\<rparr>])"
      using 1 by (simp add: datetime_max_def zero_entropy_key sample_store_def sample_lib_def)
    show "create_license sample_lib no_faults zero_entropy 63929390400000000 ''2026-11-04 11:00:00''
      ''acme'' ''Acme Corp'' (Some ''pro'') (Some (Some 0)) (sample_store [])
    = (Created ''HL-00000000-00000000-00000000-00000000'',
       sample_store [\<lparr>license_key = ''HL-00000000-00000000-00000000-00000000'',
         lic_customer_id = ''acme'', customer_name = ''Acme Corp'', plan = Some ''pro'',
         status = Some ''active'', created_at = Some ''2026-11-04 11:00:00'',
         expires_at = None, last_validated = None\<rparr>])"
      using 2 by (simp add: zero_entropy_key sample_store_def)
    show "create_license sample_lib no_faults zero_entropy 63929390400000000 ''2026-11-04 11:00:00''
      ''acme'' ''Acme Corp'' (Some ''pro'') (Some (Some 400000)) (sample_store [])
    = (Failed OverflowError, sample_store [])"
      using 3 by (simp add: datetime_max_def)
  qed
qed

subsection \<open>Properties of the instance registry\<close>

lemma register_body_existing:
  assumes "flt Connect = None" and "flt Select = None" and "flt Update = None"
    and "flt Insert = None" and "flt Commit = None"
    and "sqlite_int (reg_total_users reg)" and "sqlite_int (reg_total_messages reg)"
    and "find (\<lambda>r. customer_id r = reg_customer_id reg) (customer_instances db) = Some row"
  shows "register_body flt cur_ts reg db =
     Inr (let db1 = db\<lparr>customer_instances :=
                 map (\<lambda>r. if customer_id r = reg_customer_id reg
                           then r\<lparr>version := reg_version reg, url := reg_url reg,
                                  health_status := Some (reg_health reg),
                                  last_heartbeat := Some (reg_timestamp reg),
                                  total_users := Some (reg_total_users reg),
                                  total_messages := Some (reg_total_messages reg)\<rparr>
                           else r)
                   (customer_instances db)\<rparr>
          in if version row \<noteq> reg_version reg
             then db1\<lparr>version_history := version_history db @
                 [\<lparr>vh_id = Suc (history_seq db), vh_customer_id = Some (reg_customer_id reg),
                   old_version = Some (version row), new_version = Some (reg_version reg),
                   updated_at = Some cur_ts\<rparr>],
                 history_seq := Suc (history_seq db)\<rparr>
             else db1)"
  using assms
  by (simp add: register_body_def update_instance_def insert_history_def commit_def Let_def)

lemma register_body_new:
  assumes "flt Connect = None" and "flt Select = None"
    and "flt Insert = None" and "flt Commit = None"
    and "sqlite_int (reg_total_users reg)" and "sqlite_int (reg_total_messages reg)"
    and "find (\<lambda>r. customer_id r = reg_customer_id reg) (customer_instances db) = None"
  shows "register_body flt cur_ts reg db =
     Inr (db\<lparr>customer_instances := customer_instances db @
                   [\<lparr>customer_id = reg_customer_id reg, version = reg_version reg,
                     url = reg_url reg, health_status = Some (reg_health reg),
                     last_heartbeat = Some (reg_timestamp reg), first_seen = Some cur_ts,
                     total_users = Some (reg_total_users reg),
                     total_messages = Some (reg_total_messages reg)\<rparr>]\<rparr>)"
proof -
  have "reg_customer_id reg \<notin> set (map customer_id (customer_instances db))"
    using assms(7) by (auto simp add: find_None_iff)
  with assms show ?thesis
    by (simp add: register_body_def insert_instance_def commit_def)
qed

text \<open>
  C5. When the database calls go through: a registration of a customer whose stored
  version equals the submitted one adds no entry to \<^verbatim>\<open>version_history\<close>; one whose
  stored version differs appends exactly one entry, with the stored version as
  \<^verbatim>\<open>old_version\<close> and the submitted one as \<^verbatim>\<open>new_version\<close>; a first registration
  adds no entry.
\<close>

theorem register_instance_version_history:
  assumes "flt Connect = None" and "flt Select = None" and "flt Update = None"
    and "flt Insert = None" and "flt Commit = None"
    and "sqlite_int (reg_total_users reg)" and "sqlite_int (reg_total_messages reg)"
  shows "(\<forall>row. find (\<lambda>r. customer_id r = reg_customer_id reg) (customer_instances db) = Some row
              \<and> version row = reg_version reg \<longrightarrow>
            fst (register_instance flt cur_ts reg db) = registered
            \<and> version_history (snd (register_instance flt cur_ts reg db)) = version_history db)
       \<and> (\<forall>row. find (\<lambda>r. customer_id r = reg_customer_id reg) (customer_instances db) = Some row
              \<and> version row \<noteq> reg_version reg \<longrightarrow>
            fst (register_instance flt cur_ts reg db) = registered
            \<and> version_history (snd (register_instance flt cur_ts reg db)) =
                version_history db @
                  [\<lparr>vh_id = Suc (history_seq db), vh_customer_id = Some (reg_customer_id reg),
                    old_version = Some (version row), new_version = Some (reg_version reg),
                    updated_at = Some cur_ts\<rparr>])
       \<and> (find (\<lambda>r. customer_id r = reg_customer_id reg) (customer_instances db) = None \<longrightarrow>
            fst (register_instance flt cur_ts reg db) = registered
            \<and> version_history (snd (register_instance flt cur_ts reg db)) = version_history db)"
proof (intro conjI allI impI)
  fix row
  assume h: "find (\<lambda>r. customer_id r = reg_customer_id reg) (customer_instances db) = Some row
              \<and> version row = reg_version reg"
  then have f: "find (\<lambda>r. customer_id r = reg_customer_id reg) (customer_instances db) = Some row"
    by simp
  from h show "fst (register_instance flt cur_ts reg db) = registered"
    by (simp add: register_instance_def register_body_existing [OF assms f])
  from h show "version_history (snd (register_instance flt cur_ts reg db)) = version_history db"
    by (simp add: register_instance_def register_body_existing [OF assms f])
next
  fix row
  assume h: "find (\<lambda>r. customer_id r = reg_customer_id reg) (customer_instances db) = Some row
              \<and> version row \<noteq> reg_version reg"
  then have f: "find (\<lambda>r. customer_id r = reg_customer_id reg) (customer_instances db) = Some row"
    by simp
  from h show "fst (register_instance flt cur_ts reg db) = registered"
    by (simp add: register_instance_def register_body_existing [OF assms f])
  from h show "version_history (snd (register_instance flt cur_ts reg db)) =
                version_history db @
                  [\<lparr>vh_id = Suc (history_seq db), vh_customer_id = Some (reg_customer_id reg),
                    old_version = Some (version row), new_version = Some (reg_version reg),
                    updated_at = Some cur_ts\<rparr>]"
    by (simp add: register_instance_def register_body_existing [OF assms f])
next
  assume f: "find (\<lambda>r. customer_id r = reg_customer_id reg) (customer_instances db) = None"
  show "fst (register_instance flt cur_ts reg db) = registered"
    by (simp add: register_instance_def register_body_new [OF assms(1,2,4,5,6,7) f])
  show "version_history (snd (register_instance flt cur_ts reg db)) = version_history db"
    by (simp add: register_instance_def register_body_new [OF assms(1,2,4,5,6,7) f])
qed

theorem register_instance_version_history_witness:
  "version_history (snd (register_instance no_faults ''2026-11-04 11:00:00''
      (sample_registration ''acme'' ''1.0.0'') (instance_store [other_instance, sample_instance])))
     = []
   \<and> version_history (snd (register_instance no_faults ''2026-11-04 11:00:00''
      (sample_registration ''acme'' ''1.1.0'') (instance_store [other_instance, sample_instance])))
     = [\<lparr>vh_id = 1, vh_customer_id = Some ''acme'', old_version = Some ''1.0.0'',
         new_version = Some ''1.1.0'', updated_at = Some ''2026-11-04 11:00:00''\<rparr>]
   \<and> version_history (snd (register_instance no_faults ''2026-11-04 11:00:00''
      (sample_registration ''initech'' ''1.1.0'') (instance_store [other_instance, sample_instance])))
     = []"
proof -
  have n: "no_faults Connect = None" "no_faults Select = None" "no_faults Update = None"
    "no_faults Insert = None" "no_faults Commit = None"
    by (simp_all add: no_faults_def)
  have i: "sqlite_int (reg_total_users (sample_registration c v))"
    "sqlite_int (reg_total_messages (sample_registration c v))" for c v
    by (simp_all add: sample_registration_def sqlite_int_def)
  have f: "find (\<lambda>r. customer_id r = reg_customer_id (sample_registration ''acme'' v))
      (customer_instances (instance_store [other_instance, sample_instance])) = Some sample_instance" for v
    by (simp add: sample_registration_def instance_store_def other_instance_def sample_instance_def)
  have g: "find (\<lambda>r. customer_id r = reg_customer_id (sample_registration ''initech'' v))
      (customer_instances (instance_store [other_instance, sample_instance])) = None" for v
    by (simp add: sample_registration_def instance_store_def other_instance_def sample_instance_def)
  note t = register_instance_version_history [OF n i,
      where db = "instance_store [other_instance, sample_instance]"
        and cur_ts = "''2026-11-04 11:00:00''"]
  have 1: "version_history (snd (register_instance no_faults ''2026-11-04 11:00:00''
      (sample_registration ''acme'' ''1.0.0'') (instance_store [other_instance, sample_instance])))
     = []"
    using t [of "''acme''" "''1.0.0''"] f [of "''1.0.0''"]
    by (simp add: sample_registration_def sample_instance_def instance_store_def)
  have 2: "version_history (snd (register_instance no_faults ''2026-11-04 11:00:00''
      (sample_registration ''acme'' ''1.1.0'') (instance_store [other_instance, sample_instance])))
     = [\<lparr>vh_id = 1, vh_customer_id = Some ''acme'', old_version = Some ''1.0.0'',
         new_version = Some ''1.1.0'', updated_at = Some ''2026-11-04 11:00:00''\<rparr>]"
    using t [of "''acme''" "''1.1.0''"] f [of "''1.1.0''"]
    by (simp add: sample_registration_def sample_instance_def instance_store_def)
  have 3: "version_history (snd (register_instance no_faults ''2026-11-04 11:00:00''
      (sample_registration ''initech'' ''1.1.0'') (instance_store [other_instance, sample_instance])))
     = []"
    using t [of "''initech''" "''1.1.0''"] g [of "''1.1.0''"]
    by (simp add: instance_store_def)
  from 1 2 3 show ?thesis by simp
qed

lemma map_update_keeps:
  assumes "\<And>r. g (f r) = g r"
  shows "map g (map (\<lambda>r. if P r then f r else r) xs) = map g xs"
  using assms by (induction xs) simp_all

lemma filter_update_others:
  assumes "\<And>r. P (f r) = P r"
  shows "filter (\<lambda>r. \<not> P r) (map (\<lambda>r. if P r then f r else r) xs) = filter (\<lambda>r. \<not> P r) xs"
  using assms by (induction xs) simp_all

text \<open>
  C8. When the database calls go through, registering an existing customer sets
  \<^verbatim>\<open>version\<close>, \<^verbatim>\<open>url\<close>, \<^verbatim>\<open>health_status\<close>, \<^verbatim>\<open>last_heartbeat\<close>, \<^verbatim>\<open>total_users\<close> and
  \<^verbatim>\<open>total_messages\<close> of that customer's rows and nothing else: every row keeps its
  \<^verbatim>\<open>first_seen\<close> and its \<^verbatim>\<open>customer_id\<close>, the rows of other customers are
  unchanged, and so is the \<^verbatim>\<open>licenses\<close> table.
\<close>

theorem register_instance_update_frame:
  assumes "flt Connect = None" and "flt Select = None" and "flt Update = None"
    and "flt Insert = None" and "flt Commit = None"
    and "sqlite_int (reg_total_users reg)" and "sqlite_int (reg_total_messages reg)"
    and "find (\<lambda>r. customer_id r = reg_customer_id reg) (customer_instances db) = Some row"
  shows "customer_instances (snd (register_instance flt cur_ts reg db)) =
           map (\<lambda>r. if customer_id r = reg_customer_id reg
                     then r\<lparr>version := reg_version reg, url := reg_url reg,
                            health_status := Some (reg_health reg),
                            last_heartbeat := Some (reg_timestamp reg),
                            total_users := Some (reg_total_users reg),
                            total_messages := Some (reg_total_messages reg)\<rparr>
                     else r)
             (customer_instances db)
       \<and> map first_seen (customer_instances (snd (register_instance flt cur_ts reg db)))
           = map first_seen (customer_instances db)
       \<and> map customer_id (customer_instances (snd (register_instance flt cur_ts reg db)))
           = map customer_id (customer_instances db)
       \<and> filter (\<lambda>r. customer_id r \<noteq> reg_customer_id reg)
             (customer_instances (snd (register_instance flt cur_ts reg db)))
           = filter (\<lambda>r. customer_id r \<noteq> reg_customer_id reg) (customer_instances db)
       \<and> licenses (snd (register_instance flt cur_ts reg db)) = licenses db"
proof -
  have c: "customer_instances (snd (register_instance flt cur_ts reg db)) =
           map (\<lambda>r. if customer_id r = reg_customer_id reg
                     then r\<lparr>version := reg_version reg, url := reg_url reg,
                            health_status := Some (reg_health reg),
                            last_heartbeat := Some (reg_timestamp reg),
                            total_users := Some (reg_total_users reg),
                            total_messages := Some (reg_total_messages reg)\<rparr>
                     else r)
             (customer_instances db)"
    by (simp add: register_instance_def register_body_existing [OF assms] Let_def)
  have l: "licenses (snd (register_instance flt cur_ts reg db)) = licenses db"
    by (simp add: register_instance_def register_body_existing [OF assms] Let_def)
  have s: "map first_seen (customer_instances (snd (register_instance flt cur_ts reg db)))
           = map first_seen (customer_instances db)"
    unfolding c by (rule map_update_keeps) simp
  have i: "map customer_id (customer_instances (snd (register_instance flt cur_ts reg db)))
           = map customer_id (customer_instances db)"
    unfolding c by (rule map_update_keeps) simp
  have o: "filter (\<lambda>r. customer_id r \<noteq> reg_customer_id reg)
             (customer_instances (snd (register_instance flt cur_ts reg db)))
           = filter (\<lambda>r. customer_id r \<noteq> reg_customer_id reg) (customer_instances db)"
    unfolding c by (rule filter_update_others) simp
  from c s i o l show ?thesis by blast
qed

theorem register_instance_update_frame_witness:
  "customer_instances (snd (register_instance no_faults ''2026-11-04 11:00:00''
      (sample_registration ''acme'' ''1.1.0'') (instance_store [other_instance, sample_instance])))
     = [other_instance,
        \<lparr>customer_id = ''acme'', version = ''1.1.0'', url = ''https://acme.example/app'',
         health_status = Some ''healthy'', last_heartbeat = Some ''2026-11-04T12:00:00'',
         first_seen = Some ''2026-01-18 09:30:00'', total_users = Some 12,
         total_messages = Some 300\<rparr>]"
proof -
  have n: "no_faults Connect = None" "no_faults Select = None" "no_faults Update = None"
    "no_faults Insert = None" "no_faults Commit = None"
    by (simp_all add: no_faults_def)
  have i: "sqlite_int (reg_total_users (sample_registration ''acme'' ''1.1.0''))"
    "sqlite_int (reg_total_messages (sample_registration ''acme'' ''1.1.0''))"
    by (simp_all add: sample_registration_def sqlite_int_def)
  have f: "find (\<lambda>r. customer_id r = reg_customer_id (sample_registration ''acme'' ''1.1.0''))
      (customer_instances (instance_store [other_instance, sample_instance])) = Some sample_instance"
    by (simp add: sample_registration_def instance_store_def other_instance_def sample_instance_def)
  from register_instance_update_frame [OF n i f, of "''2026-11-04 11:00:00''"]
  show ?thesis
    by (simp add: sample_registration_def instance_store_def other_instance_def sample_instance_def)
qed

subsection \<open>Properties of the admin credential check\<close>

text \<open>
  On ASCII strings the check does what its \<^verbatim>\<open>raise HTTPException\<close> intends: access is
  granted, returning the user name, exactly when the supplied user name and password
  equal the configured ones, and every other pair is rejected with HTTP 401 and the
  header \<^verbatim>\<open>WWW-Authenticate: Basic\<close>.
\<close>

lemma verify_master_admin_ascii_strings:
  assumes "is_ascii (username credentials)" and "is_ascii (password credentials)"
    and "is_ascii (MASTER_ADMIN_USERNAME cfg)" and "is_ascii (MASTER_ADMIN_PASSWORD cfg)"
  shows "verify_master_admin cfg credentials =
        (if username credentials = MASTER_ADMIN_USERNAME cfg
            \<and> password credentials = MASTER_ADMIN_PASSWORD cfg
         then Inr (username credentials)
         else Inl (HTTPException 401 ''Incorrect credentials'' [(''WWW-Authenticate'', ''Basic'')]))"
  using assms by (simp add: verify_master_admin_def compare_digest_def)

text \<open>
  C10. The check is claimed to grant access exactly when the supplied user name and
  password equal the configured ones, and to reject every other pair with HTTP 401 and
  the header \<^verbatim>\<open>WWW-Authenticate: Basic\<close>. The handler passes its strings to
  \<^verbatim>\<open>secrets.compare_digest\<close> as they are: with the configured password \<^verbatim>\<open>p\<close>,
  a-umlaut, \<^verbatim>\<open>ss\<close> and the supplied pair \<^verbatim>\<open>admin\<close>, \<^verbatim>\<open>changeme123\<close>, which is not the
  configured one, the comparison raises \<^verbatim>\<open>TypeError\<close> before the
  \<^verbatim>\<open>raise HTTPException\<close> is reached, and the answer is not the 401 rejection.
\<close>

theorem verify_master_admin_non_ascii_password:
  "verify_master_admin (sample_config [CHR ''p'', CHR 0xE4, CHR ''s'', CHR ''s''])
      \<lparr>username = ''admin'', password = ''changeme123''\<rparr>
    = Inl (TypeError ''comparing strings with non-ASCII characters is not supported'')
   \<and> verify_master_admin (sample_config [CHR ''p'', CHR 0xE4, CHR ''s'', CHR ''s''])
      \<lparr>username = ''admin'', password = ''changeme123''\<rparr>
    \<noteq> Inl (HTTPException 401 ''Incorrect credentials'' [(''WWW-Authenticate'', ''Basic'')])
   \<and> [CHR ''p'', CHR 0xE4, CHR ''s'', CHR ''s''] \<noteq> ''changeme123''"
  by (simp add: verify_master_admin_def compare_digest_def is_ascii_def sample_config_def)

end
